theory Spec2Isabelle
  imports Complex_Main
begin

section \<open>The PDF report layout engine\<close>

text \<open>
  The repository holds several versions of one report generator. Two of them are
  modelled here, each from its own source text:
  \<^item> \<^verbatim>\<open>src/utils/pdfGenerator.ts\<close>: definitions with the suffix \<open>_pg\<close>;
  \<^item> the generator in \<^verbatim>\<open>unnamed/part_001\<close>, lines 944 to 1921: definitions with the
    suffix \<open>_p1\<close>.
  A definition without a suffix is shared by both (a JavaScript built-in, or a helper
  whose text is the same in both files).
\<close>

subsection \<open>JavaScript strings\<close>

text \<open>
  A JavaScript string is a sequence of UTF-16 code units. The sanitizer looks at code
  units beyond ASCII (the rupee sign, curly quotes, the no-break space), so a string is
  a list of code units, each a natural number below 65536. \<open>js\<close> embeds an ASCII
  literal.
\<close>

type_synonym jstring = "nat list"

definition js :: "string \<Rightarrow> jstring" where
  "js s = map of_char s"

subsection \<open>JavaScript numbers\<close>

text \<open>
  A JavaScript number is an IEEE double. The model keeps the three non-finite values,
  because the chart code divides by a total that can be zero, and reads a finite double
  as the real number it denotes: rounding, overflow and the sign of zero are left out.
  A zero divisor is the positive zero (a sum that starts from \<open>0\<close> is never the negative
  zero).
\<close>

datatype jsnum = Fin real | PosInf | NegInf | NaN

fun js_add :: "jsnum \<Rightarrow> jsnum \<Rightarrow> jsnum" where
  "js_add NaN _ = NaN"
| "js_add _ NaN = NaN"
| "js_add (Fin a) (Fin b) = Fin (a + b)"
| "js_add PosInf NegInf = NaN"
| "js_add NegInf PosInf = NaN"
| "js_add PosInf _ = PosInf"
| "js_add _ PosInf = PosInf"
| "js_add NegInf _ = NegInf"
| "js_add _ NegInf = NegInf"

fun js_neg :: "jsnum \<Rightarrow> jsnum" where
  "js_neg (Fin a) = Fin (- a)"
| "js_neg PosInf = NegInf"
| "js_neg NegInf = PosInf"
| "js_neg NaN = NaN"

fun js_mul :: "jsnum \<Rightarrow> jsnum \<Rightarrow> jsnum" where
  "js_mul NaN _ = NaN"
| "js_mul _ NaN = NaN"
| "js_mul (Fin a) (Fin b) = Fin (a * b)"
| "js_mul PosInf (Fin b) = (if b = 0 then NaN else if 0 < b then PosInf else NegInf)"
| "js_mul NegInf (Fin b) = (if b = 0 then NaN else if 0 < b then NegInf else PosInf)"
| "js_mul (Fin a) PosInf = (if a = 0 then NaN else if 0 < a then PosInf else NegInf)"
| "js_mul (Fin a) NegInf = (if a = 0 then NaN else if 0 < a then NegInf else PosInf)"
| "js_mul PosInf PosInf = PosInf"
| "js_mul NegInf NegInf = PosInf"
| "js_mul PosInf NegInf = NegInf"
| "js_mul NegInf PosInf = NegInf"

fun js_div :: "jsnum \<Rightarrow> jsnum \<Rightarrow> jsnum" where
  "js_div NaN _ = NaN"
| "js_div _ NaN = NaN"
| "js_div (Fin a) (Fin b) =
     (if b \<noteq> 0 then Fin (a / b)
      else if a = 0 then NaN else if 0 < a then PosInf else NegInf)"
| "js_div (Fin a) PosInf = Fin 0"
| "js_div (Fin a) NegInf = Fin 0"
| "js_div PosInf (Fin b) = (if 0 \<le> b then PosInf else NegInf)"
| "js_div NegInf (Fin b) = (if 0 \<le> b then NegInf else PosInf)"
| "js_div PosInf PosInf = NaN"
| "js_div PosInf NegInf = NaN"
| "js_div NegInf PosInf = NaN"
| "js_div NegInf NegInf = NaN"

text \<open>\<^verbatim>\<open>Math.ceil\<close>, \<^verbatim>\<open>Math.cos\<close>, \<^verbatim>\<open>Math.sin\<close>, \<^verbatim>\<open>Math.max\<close> of two numbers.\<close>

fun js_ceil :: "jsnum \<Rightarrow> jsnum" where
  "js_ceil (Fin a) = Fin (of_int \<lceil>a\<rceil>)"
| "js_ceil x = x"

fun js_cos :: "jsnum \<Rightarrow> jsnum" where
  "js_cos (Fin a) = Fin (cos a)"
| "js_cos _ = NaN"

fun js_sin :: "jsnum \<Rightarrow> jsnum" where
  "js_sin (Fin a) = Fin (sin a)"
| "js_sin _ = NaN"


text \<open>The comparison \<^verbatim>\<open>a <= b\<close>: false as soon as one side is \<^verbatim>\<open>NaN\<close>.\<close>

fun js_le :: "jsnum \<Rightarrow> jsnum \<Rightarrow> bool" where
  "js_le NaN _ = False"
| "js_le _ NaN = False"
| "js_le (Fin a) (Fin b) = (a \<le> b)"
| "js_le NegInf _ = True"
| "js_le _ PosInf = True"
| "js_le PosInf _ = False"
| "js_le _ NegInf = False"



subsection \<open>Number formatting\<close>

text \<open>The decimal digits of a natural number (\<^verbatim>\<open>toString\<close> of a non-negative integer).\<close>

fun digits :: "nat \<Rightarrow> string" where
  "digits n =
     (if n < 10 then [''0123456789'' ! n]
      else digits (n div 10) @ [''0123456789'' ! (n mod 10)])"

declare digits.simps [simp del]







subsection \<open>formatCurrency\<close>



subsection \<open>clean, the text sanitizer\<close>

text \<open>
  \<^verbatim>\<open>part_001\<close>, lines 1033 to 1044. The class \<^verbatim>\<open>\s\<close> of a JavaScript regular expression
  and the characters \<^verbatim>\<open>trim\<close> removes are the same set.
\<close>

definition is_space :: "nat \<Rightarrow> bool" where
  "is_space c \<longleftrightarrow>
     c \<in> {9, 10, 11, 12, 13, 32, 160, 5760, 8232, 8233, 8239, 8287, 12288, 65279}
     \<or> (8192 \<le> c \<and> c \<le> 8202)"

text \<open>The first \<^verbatim>\<open>.replace\<close>: every rupee sign (\<^verbatim>\<open>U+20B9\<close>) becomes \<^verbatim>\<open>'Rs '\<close>.\<close>

definition replace_rupee :: "jstring \<Rightarrow> jstring" where
  "replace_rupee s = concat (map (\<lambda>c. if c = 8377 then js ''Rs '' else [c]) s)"

text \<open>
  \<^verbatim>\<open>.replace(/[\u2018\u2019]/g, "'")\<close> and \<^verbatim>\<open>.replace(/[\u201C\u201D]/g, '"')\<close>:
  curly quotes become straight ones.
\<close>

definition replace_single_quotes :: "jstring \<Rightarrow> jstring" where
  "replace_single_quotes s = map (\<lambda>c. if c = 8216 \<or> c = 8217 then 39 else c) s"

definition replace_double_quotes :: "jstring \<Rightarrow> jstring" where
  "replace_double_quotes s = map (\<lambda>c. if c = 8220 \<or> c = 8221 then 34 else c) s"

text \<open>\<^verbatim>\<open>.replace(/\u00A0/g, ' ')\<close>: the no-break space becomes a space.\<close>

definition replace_nbsp :: "jstring \<Rightarrow> jstring" where
  "replace_nbsp s = map (\<lambda>c. if c = 160 then 32 else c) s"

text \<open>
  \<^verbatim>\<open>.replace(/\s+/g, ' ')\<close>: every maximal run of white space becomes one space. The flag
  says whether the scan is inside a run.
\<close>

fun collapse_from :: "bool \<Rightarrow> jstring \<Rightarrow> jstring" where
  "collapse_from in_run [] = []"
| "collapse_from in_run (c # cs) =
     (if is_space c then (if in_run then collapse_from True cs else 32 # collapse_from True cs)
      else c # collapse_from False cs)"

definition collapse_spaces :: "jstring \<Rightarrow> jstring" where
  "collapse_spaces s = collapse_from False s"

text \<open>\<^verbatim>\<open>.replace(/[^\x20-\x7E]/g, '')\<close>.\<close>

definition printable :: "nat \<Rightarrow> bool" where
  "printable c \<longleftrightarrow> 32 \<le> c \<and> c \<le> 126"

definition strip_non_printable :: "jstring \<Rightarrow> jstring" where
  "strip_non_printable s = filter printable s"

text \<open>\<^verbatim>\<open>.trim()\<close>.\<close>

definition trim :: "jstring \<Rightarrow> jstring" where
  "trim s = rev (dropWhile is_space (rev (dropWhile is_space s)))"

text \<open>
  The argument is \<^verbatim>\<open>any\<close>; \<open>None\<close> stands for \<^verbatim>\<open>null\<close> and \<^verbatim>\<open>undefined\<close>, \<open>Some s\<close> for a
  value whose \<^verbatim>\<open>String(value)\<close> is \<open>s\<close>.
\<close>

definition clean :: "jstring option \<Rightarrow> jstring" where
  "clean v =
     (let s = (case v of None \<Rightarrow> [] | Some t \<Rightarrow> t)
      in trim (strip_non_printable (collapse_spaces (replace_nbsp
           (replace_double_quotes (replace_single_quotes (replace_rupee s)))))))"

text \<open>Two neighbouring ASCII spaces somewhere in a string.\<close>

fun double_space :: "jstring \<Rightarrow> bool" where
  "double_space (a # b # cs) = ((a = 32 \<and> b = 32) \<or> double_space (b # cs))"
| "double_space _ = False"

text \<open>
  The input of the specification's sanitizer example: rupee sign, space, \<^verbatim>\<open>1,000\<close>,
  space, en dash (\<^verbatim>\<open>U+2013\<close>), space, left curly double quote, \<^verbatim>\<open>demo\<close>, right curly
  double quote.
\<close>

definition spec_example :: jstring where
  "spec_example = [8377, 32] @ js ''1,000'' @ [32, 8211, 32, 8220] @ js ''demo'' @ [8221]"

subsection \<open>Chart helpers\<close>

text \<open>
  The chart helpers draw through the jsPDF document they are given. The model returns
  the calls they make, in order. \<open>TextNum v\<close> is \<^verbatim>\<open>doc.text(v.toString(), ...)\<close>.
\<close>

type_synonym rgb = "nat \<times> nat \<times> nat"

datatype cmd =
    SetFillColor rgb
  | SetTextColor rgb
  | SetFontSize real
  | SetFont string string
  | Circle jsnum jsnum jsnum
  | Triangle jsnum jsnum jsnum jsnum jsnum jsnum
  | RoundedRect jsnum jsnum jsnum jsnum real real
  | Text jstring jsnum jsnum
  | TextNum jsnum jsnum jsnum

record chart_item =
  it_label :: jstring
  it_value :: jsnum
  it_color :: rgb

text \<open>\<^verbatim>\<open>data.reduce((sum, item) => sum + item.value, 0)\<close>.\<close>

definition series_total :: "'a chart_item_scheme list \<Rightarrow> jsnum" where
  "series_total data = foldl (\<lambda>sum item. js_add sum (it_value item)) (Fin 0) data"

text \<open>\<^verbatim>\<open>(item.value / tot) * 2 * Math.PI\<close>.\<close>

definition sliceAngle_of :: "jsnum \<Rightarrow> 'a chart_item_scheme \<Rightarrow> jsnum" where
  "sliceAngle_of tot item = js_mul (js_mul (js_div (it_value item) tot) (Fin 2)) (Fin pi)"

text \<open>
  What one turn of the \<^verbatim>\<open>forEach\<close> computes: the angle the slice starts at
  (\<^verbatim>\<open>currentAngle\<close> on entry), its span (\<^verbatim>\<open>sliceAngle\<close>) and the calls it makes, \<open>None\<close> when
  its inner loop never ends.
\<close>

record slice =
  sl_start :: jsnum
  sl_span :: jsnum
  sl_cmds :: "cmd list option"

text \<open>
  The inner loop \<^verbatim>\<open>for (let i = 0; i <= steps; i++) { ... }\<close> of both renderers; \<open>body i\<close>
  is the list of calls of turn \<open>i\<close>. With \<^verbatim>\<open>steps = Infinity\<close> the test never fails, and
  the loop has no value.
\<close>

partial_function (option) for_loop ::
  "(nat \<Rightarrow> cmd list) \<Rightarrow> jsnum \<Rightarrow> nat \<Rightarrow> cmd list \<Rightarrow> cmd list option" where
  "for_loop body steps i out =
     (if js_le (Fin (real i)) steps then for_loop body steps (Suc i) (out @ body i)
      else Some out)"

subsubsection \<open>drawPieChart (pdfGenerator.ts, lines 67 to 105)\<close>

definition pie_step ::
  "jsnum \<Rightarrow> jsnum \<Rightarrow> jsnum \<Rightarrow> rgb \<Rightarrow> jsnum \<Rightarrow> jsnum \<Rightarrow> jsnum \<Rightarrow> nat \<Rightarrow> cmd list" where
  "pie_step centerX centerY radius col currentAngle sliceAngle steps i =
     (let angle = js_add currentAngle (js_div (js_mul sliceAngle (Fin (real i))) steps);
          nextAngle = js_add currentAngle (js_div (js_mul sliceAngle (Fin (real i + 1))) steps);
          x1 = js_add centerX (js_mul radius (js_cos angle));
          y1 = js_add centerY (js_mul radius (js_sin angle));
          x2 = js_add centerX (js_mul radius (js_cos nextAngle));
          y2 = js_add centerY (js_mul radius (js_sin nextAngle))
      in [SetFillColor col, Triangle centerX centerY x1 y1 x2 y2])"

definition pie_steps :: "jsnum \<Rightarrow> jsnum" where
  "pie_steps sliceAngle = js_ceil (js_div (js_div (js_mul sliceAngle (Fin 180)) (Fin pi)) (Fin 5))"

fun pie_slices ::
  "jsnum \<Rightarrow> jsnum \<Rightarrow> jsnum \<Rightarrow> jsnum \<Rightarrow> jsnum \<Rightarrow> chart_item list \<Rightarrow> slice list" where
  "pie_slices centerX centerY radius tot currentAngle [] = []"
| "pie_slices centerX centerY radius tot currentAngle (item # rest) =
     (let sliceAngle = sliceAngle_of tot item;
          steps = pie_steps sliceAngle
      in \<lparr>sl_start = currentAngle, sl_span = sliceAngle,
          sl_cmds = for_loop
                      (pie_step centerX centerY radius (it_color item) currentAngle sliceAngle steps)
                      steps 0 [SetFillColor (it_color item), Circle centerX centerY radius]\<rparr>
         # pie_slices centerX centerY radius tot (js_add currentAngle sliceAngle) rest)"

definition pie_trace :: "jsnum \<Rightarrow> jsnum \<Rightarrow> jsnum \<Rightarrow> chart_item list \<Rightarrow> slice list" where
  "pie_trace centerX centerY radius data =
     pie_slices centerX centerY radius (series_total data) (Fin (- pi / 2)) data"

definition drawPieChart ::
  "jsnum \<Rightarrow> jsnum \<Rightarrow> jsnum \<Rightarrow> chart_item list \<Rightarrow> cmd list option" where
  "drawPieChart centerX centerY radius data =
     (case those (map sl_cmds (pie_trace centerX centerY radius data)) of
        None \<Rightarrow> None
      | Some css \<Rightarrow>
          Some (concat css @
                [SetFillColor (255, 255, 255), Circle centerX centerY (js_mul radius (Fin (1 / 2)))]))"

subsubsection \<open>drawModernDonutChart (part_001, lines 1046 to 1086)\<close>

definition donut_step ::
  "jsnum \<Rightarrow> jsnum \<Rightarrow> jsnum \<Rightarrow> jsnum \<Rightarrow> rgb \<Rightarrow> jsnum \<Rightarrow> jsnum \<Rightarrow> jsnum \<Rightarrow> nat \<Rightarrow> cmd list" where
  "donut_step centerX centerY outerRadius innerRadius col currentAngle sliceAngle steps i =
     (let angle1 = js_add currentAngle (js_div (js_mul sliceAngle (Fin (real i))) steps);
          angle2 = js_add currentAngle (js_div (js_mul sliceAngle (Fin (real i + 1))) steps);
          x1Outer = js_add centerX (js_mul outerRadius (js_cos angle1));
          y1Outer = js_add centerY (js_mul outerRadius (js_sin angle1));
          x2Outer = js_add centerX (js_mul outerRadius (js_cos angle2));
          y2Outer = js_add centerY (js_mul outerRadius (js_sin angle2));
          x1Inner = js_add centerX (js_mul innerRadius (js_cos angle1));
          y1Inner = js_add centerY (js_mul innerRadius (js_sin angle1));
          x2Inner = js_add centerX (js_mul innerRadius (js_cos angle2));
          y2Inner = js_add centerY (js_mul innerRadius (js_sin angle2))
      in [SetFillColor col,
          Triangle x1Outer y1Outer x2Outer y2Outer x1Inner y1Inner,
          Triangle x2Outer y2Outer x2Inner y2Inner x1Inner y1Inner])"

definition donut_steps :: "jsnum \<Rightarrow> jsnum" where
  "donut_steps sliceAngle =
     js_ceil (js_div (js_div (js_mul sliceAngle (Fin 180)) (Fin pi)) (Fin 2))"

fun donut_slices ::
  "jsnum \<Rightarrow> jsnum \<Rightarrow> jsnum \<Rightarrow> jsnum \<Rightarrow> jsnum \<Rightarrow> jsnum \<Rightarrow> chart_item list \<Rightarrow> slice list" where
  "donut_slices centerX centerY outerRadius innerRadius tot currentAngle [] = []"
| "donut_slices centerX centerY outerRadius innerRadius tot currentAngle (item # rest) =
     (let sliceAngle = sliceAngle_of tot item;
          steps = donut_steps sliceAngle
      in \<lparr>sl_start = currentAngle, sl_span = sliceAngle,
          sl_cmds = for_loop
                      (donut_step centerX centerY outerRadius innerRadius (it_color item)
                         currentAngle sliceAngle steps)
                      steps 0 []\<rparr>
         # donut_slices centerX centerY outerRadius innerRadius tot
             (js_add currentAngle sliceAngle) rest)"

definition donut_trace ::
  "jsnum \<Rightarrow> jsnum \<Rightarrow> jsnum \<Rightarrow> jsnum \<Rightarrow> chart_item list \<Rightarrow> slice list" where
  "donut_trace centerX centerY outerRadius innerRadius data =
     donut_slices centerX centerY outerRadius innerRadius (series_total data) (Fin (- pi / 2)) data"

definition drawModernDonutChart ::
  "jsnum \<Rightarrow> jsnum \<Rightarrow> jsnum \<Rightarrow> jsnum \<Rightarrow> chart_item list \<Rightarrow> cmd list option" where
  "drawModernDonutChart centerX centerY outerRadius innerRadius data =
     (case those (map sl_cmds (donut_trace centerX centerY outerRadius innerRadius data)) of
        None \<Rightarrow> None
      | Some css \<Rightarrow>
          Some (concat css @ [SetFillColor (255, 255, 255), Circle centerX centerY innerRadius]))"

subsubsection \<open>drawBarChart (pdfGenerator.ts, lines 107 to 141)\<close>








subsubsection \<open>drawModernBarChart (part_001, lines 1088 to 1134)\<close>

record bar_item = chart_item +
  it_percentage :: "jsnum option"








text \<open>The finite values of a series, for stating the geometry in real numbers.\<close>

fun fin_of :: "jsnum \<Rightarrow> real" where
  "fin_of (Fin a) = a"
| "fin_of _ = 0"

definition finite_nonneg :: "jsnum \<Rightarrow> bool" where
  "finite_nonneg x = (case x of Fin a \<Rightarrow> 0 \<le> a | _ \<Rightarrow> False)"


text \<open>
  The slice geometry in the words of the specification: entries in input order, each
  spanning \<open>2\<pi> \<sqdot> value / total\<close>, the first starting at the angle given and each
  next one where the one before ends.
\<close>

fun spec_geometry :: "jsnum \<Rightarrow> jsnum \<Rightarrow> chart_item list \<Rightarrow> (jsnum \<times> jsnum) list" where
  "spec_geometry tot start [] = []"
| "spec_geometry tot start (item # rest) =
     (start, js_mul (js_mul (js_div (it_value item) tot) (Fin 2)) (Fin pi))
     # spec_geometry tot
         (js_add start (js_mul (js_mul (js_div (it_value item) tot) (Fin 2)) (Fin pi))) rest"



definition no_bids :: "chart_item list" where
  "no_bids =
     [\<lparr>it_label = js ''Wins'', it_value = Fin 0, it_color = (16, 185, 129)\<rparr>,
      \<lparr>it_label = js ''Losses'', it_value = Fin 0, it_color = (239, 68, 68)\<rparr>]"

text \<open>Every value of the series is a finite number.\<close>

abbreviation fin_values :: "chart_item list \<Rightarrow> bool" where
  "fin_values data \<equiv> list_all (\<lambda>it. it_value it = Fin (fin_of (it_value it))) data"





subsection \<open>The document and the layout state\<close>

text \<open>
  The generators draw into a jsPDF document and keep a cursor \<^verbatim>\<open>yPosition\<close>. The model keeps
  what the layout depends on and what a reader of the document sees: the pages, the
  current page (numbered from 1, as in jsPDF), the cursor, and on each page the texts,
  section headers, charts, tables and header/footer stamps put on it, in order. Colours,
  fonts, coordinates and the rectangles, lines and circles of the decoration are left
  out: they put no text and change neither page nor cursor. A chart item records the
  call of the chart helper with its series; what that call draws is the helper's model
  above.
\<close>

datatype item =
    Txt jstring
  | TxtLines "jstring list"
  | SectionHeader jstring
  | PieChart "chart_item list"
  | DonutChart "chart_item list"
  | BarChart "chart_item list"
  | ModernBarChart "bar_item list" bool
  | Table "jstring list" "jstring list list"
  | TableCont "jstring list"
  | Header "jstring list"
  | Footer "jstring list"

record doc =
  pages :: "item list list"
  page :: nat
  yPosition :: real

text \<open>
  What the generators take from their libraries and from the clock, as parameters: the
  page size of \<^verbatim>\<open>new jsPDF()\<close>, \<^verbatim>\<open>formatDate\<close> (built on \<^verbatim>\<open>Date\<close>; its argument may be
  \<^verbatim>\<open>undefined\<close>), \<^verbatim>\<open>doc.splitTextToSize\<close> and \<^verbatim>\<open>doc.getTextWidth\<close> (font metrics), the string of
  a number that is not an integer, whether a bid's end lies before \<^verbatim>\<open>new Date()\<close>, and the
  pagination of \<^verbatim>\<open>autoTable\<close>: how many pages a table that starts at a given height adds,
  and the height at which it ends (\<^verbatim>\<open>lastAutoTable.finalY\<close>).
\<close>

record env =
  pageWidth :: real
  pageHeight :: real
  formatDate :: "jstring option \<Rightarrow> jstring"
  splitTextToSize :: "jstring \<Rightarrow> real \<Rightarrow> jstring list"
  getTextWidth :: "jstring \<Rightarrow> real"
  numberToString :: "real \<Rightarrow> string"
  bidClosed :: "jstring \<Rightarrow> bool"
  tableExtraPages :: "real \<Rightarrow> jstring list list \<Rightarrow> nat"
  tableFinalY :: "real \<Rightarrow> jstring list list \<Rightarrow> real"



text \<open>
  Drawing puts an item at the end of the current page. \<^verbatim>\<open>doc.addPage()\<close> appends an empty
  page and makes it the current one.
\<close>

definition on_page :: "nat \<Rightarrow> (item list \<Rightarrow> item list) \<Rightarrow> item list list \<Rightarrow> item list list" where
  "on_page n f ps = (if 1 \<le> n \<and> n \<le> length ps then ps[n - 1 := f (ps ! (n - 1))] else ps)"

definition put :: "item \<Rightarrow> doc \<Rightarrow> doc" where
  "put it d = d\<lparr>pages := on_page (page d) (\<lambda>p. p @ [it]) (pages d)\<rparr>"

definition doc_text :: "jstring \<Rightarrow> doc \<Rightarrow> doc" where
  "doc_text s = put (Txt s)"

definition addPage :: "doc \<Rightarrow> doc" where
  "addPage d = d\<lparr>pages := pages d @ [[]], page := length (pages d) + 1\<rparr>"


definition setY :: "real \<Rightarrow> doc \<Rightarrow> doc" where
  "setY v d = d\<lparr>yPosition := v\<rparr>"


text \<open>A block of statements is the list of its actions, run from left to right.\<close>

definition run :: "(doc \<Rightarrow> doc) list \<Rightarrow> doc \<Rightarrow> doc" where
  "run acts d = foldl (\<lambda>s a. a s) d acts"





subsection \<open>The report data\<close>

text \<open>
  The fields of \<^verbatim>\<open>ReportData\<close> the generators read. A field the code reads through
  \<^verbatim>\<open>?.\<close> and \<^verbatim>\<open>|| []\<close> is a list, empty when absent; a field whose presence the code tests is
  an option. A number that comes with the JSON payload is finite. The entries of the win
  lists are \<^verbatim>\<open>any\<close>: each field may be absent.
\<close>

record win =
  w_total_price :: "real option"
  w_bid_number :: "jstring option"
  w_org :: "jstring option"
  w_dept :: "jstring option"
  w_quantity :: "jsnum option"
  w_ended_at :: "jstring option"
  w_created_at :: "jstring option"




subsection \<open>The headline figures\<close>








subsection \<open>The generator of part_001 (lines 1161 to 1921)\<close>

record department =
  dep_department :: jstring
  dep_total_tenders :: jsnum

record seller_p1 =
  seller_name :: jstring
  participation_count :: jsnum

record state_p1 =
  state_name :: jstring
  state_total_tenders :: jsnum

record category =
  cat_category :: jstring
  cat_count :: jsnum

record opportunity =
  opp_organisation :: "jstring option"
  opp_bid_number :: "jstring option"
  opp_bid_end_ts :: "jstring option"
  opp_seller_count :: "jstring option"
  opp_quantity :: "jsnum option"

text \<open>
  \<open>rp_topSellers\<close> is \<^verbatim>\<open>data.topSellersByDept?.results || []\<close>, \<open>rp_lowCompetition\<close> is
  \<^verbatim>\<open>data.lowCompetitionBids?.results || []\<close>, \<open>rp_topStates\<close> is
  \<^verbatim>\<open>data.topPerformingStates?.results\<close>, \<open>rp_next_steps\<close> is
  \<^verbatim>\<open>data.missedButWinnable?.ai?.guidance?.next_steps\<close>; \<open>dep_total_tenders\<close> and
  \<open>state_total_tenders\<close> hold \<^verbatim>\<open>Number(total_tenders)\<close>. The affinity entries are pairs
  \<open>(org, signal)\<close>.
\<close>

record reportData_p1 =
  rp_report_generated_at :: jstring
  rp_sellerName :: jstring
  rp_department :: jstring
  rp_offeredItem :: jstring
  rp_days :: jsnum
  rp_recentWins :: "win list"
  rp_marketWins :: "win list"
  rp_strategy_summary :: jstring
  rp_org_affinity :: "(jstring \<times> jstring) list"
  rp_next_steps :: "jstring list option"
  rp_allDepartments :: "department list option"
  rp_topSellers :: "seller_p1 list"
  rp_lowCompetition :: "opportunity list"
  rp_topStates :: "state_p1 list option"
  rp_categoryListing :: "category list"

text \<open>The closures of \<^verbatim>\<open>generatePDF\<close> (lines 1186 to 1256); \<^verbatim>\<open>SAFE_TOP\<close> is 18.\<close>

definition addPageHeader_p1 :: "env \<Rightarrow> reportData_p1 \<Rightarrow> doc \<Rightarrow> doc" where
  "addPageHeader_p1 e rd =
     put (Header [js ''Government Tender Analysis'',
                  formatDate e (Some (rp_report_generated_at rd))])"

definition addPageFooter_p1 :: "env \<Rightarrow> reportData_p1 \<Rightarrow> doc \<Rightarrow> doc" where
  "addPageFooter_p1 e rd d =
     put (Footer [rp_sellerName rd, js (''Page '' @ digits (page d)), js ''Confidential'']) d"

definition addNewPage_p1 :: "env \<Rightarrow> reportData_p1 \<Rightarrow> doc \<Rightarrow> doc" where
  "addNewPage_p1 e rd = run [addPage, setY 18, addPageHeader_p1 e rd, addPageFooter_p1 e rd]"

definition checkPageBreak_p1 :: "env \<Rightarrow> reportData_p1 \<Rightarrow> real \<Rightarrow> doc \<Rightarrow> bool \<times> doc" where
  "checkPageBreak_p1 e rd requiredSpace d =
     (if yPosition d + requiredSpace > pageHeight e - 12 - 5
      then (True, addNewPage_p1 e rd d)
      else (False, d))"

































subsection \<open>The generator of pdfGenerator.ts (lines 143 to 1466)\<close>

text \<open>
  The fields of its \<^verbatim>\<open>ReportData\<close>. \<open>rg_ai\<close> is \<^verbatim>\<open>data.missedButWinnable?.ai\<close>, whose presence
  the code tests; the affinity entries are pairs of a name and a signal; the entries of
  \<^verbatim>\<open>lowCompetitionBids.results\<close> are wins with a \<^verbatim>\<open>bidders_count\<close>.
\<close>

record matching_win =
  mw_bid_number :: "jstring option"
  mw_org :: "jstring option"
  mw_dept :: "jstring option"
  mw_quantity :: "jsnum option"
  mw_price_hint :: "real option"
  mw_confidence :: "jstring option"

record likely_win =
  lw_offered_item :: jstring
  lw_reason :: jstring
  lw_matching_market_wins :: "matching_win list"

record guidance =
  g_note :: jstring
  g_next_steps :: "jstring list"
  g_expansion_areas :: "jstring list"

record ai =
  ai_strategy_summary :: jstring
  ai_likely_wins :: "likely_win list"
  ai_org_affinity :: "(jstring \<times> jstring) list"
  ai_dept_affinity :: "(jstring \<times> jstring) list"
  ai_ministry_affinity :: "(jstring \<times> jstring) list"
  ai_quantity_ranges :: "jstring list"
  ai_price_ranges :: "jstring list"
  ai_guidance :: "guidance option"

record priceBand =
  pb_highest :: real
  pb_lowest :: real
  pb_average :: real

record state_pg =
  sg_state :: jstring
  sg_value :: "real option"
  sg_count :: real

record seller_pg =
  ts_seller :: "jstring option"
  ts_dept :: "jstring option"
  ts_value :: "real option"

record bid_pg = win +
  w_bidders_count :: "jsnum option"

record reportData_pg =
  rg_report_generated_at :: jstring
  rg_sellerName :: jstring
  rg_department :: jstring
  rg_offeredItem :: jstring
  rg_days :: jsnum
  rg_recentWins :: "win list"
  rg_marketWins :: "win list"
  rg_ai :: "ai option"
  rg_priceBand :: "priceBand option"
  rg_topPerformingStates :: "state_pg list"
  rg_topSellersByDept :: "seller_pg list"
  rg_lowCompetitionBids :: "bid_pg list"


text \<open>The closures of \<^verbatim>\<open>generatePDF\<close> (lines 164 to 209); the cursor starts at 20.\<close>

definition addPageHeader_pg :: "doc \<Rightarrow> doc" where
  "addPageHeader_pg = put (Header [js ''Government Tender Performance Analysis''])"

definition addPageFooter_pg :: "env \<Rightarrow> reportData_pg \<Rightarrow> doc \<Rightarrow> doc" where
  "addPageFooter_pg e rd d =
     put (Footer [js ''Generated: '' @ formatDate e (Some (rg_report_generated_at rd)),
                  js (''Page '' @ digits (page d)),
                  rg_sellerName rd]) d"

definition addNewPage_pg :: "env \<Rightarrow> reportData_pg \<Rightarrow> doc \<Rightarrow> doc" where
  "addNewPage_pg e rd = run [addPage, setY 20, addPageHeader_pg, addPageFooter_pg e rd]"

definition checkPageBreak_pg :: "env \<Rightarrow> reportData_pg \<Rightarrow> real \<Rightarrow> doc \<Rightarrow> bool \<times> doc" where
  "checkPageBreak_pg e rd requiredSpace d =
     (if yPosition d + requiredSpace > pageHeight e - 25
      then (True, addNewPage_pg e rd d)
      else (False, d))"








































subsection \<open>Notions for stating the layout properties\<close>

text \<open>
  A document is well formed when its current page exists. The items drawn anywhere in
  it; the header and footer stamps of a page.
\<close>

definition wf_doc :: "doc \<Rightarrow> bool" where
  "wf_doc d = (1 \<le> page d \<and> page d \<le> length (pages d))"




text \<open>
  \<open>grows R d d'\<close>: the document \<open>d'\<close> comes from \<open>d\<close> by drawing more. No page is lost or
  changed but by items put at its end, the current page does not go back, and every new
  item on the page with index \<open>i\<close> (from 0) satisfies \<open>R i\<close>. An action is \<open>safe R k\<close> when it
  makes the document grow so, from every well-formed document whose current page is at
  least \<open>k\<close>.
\<close>

definition grows :: "(nat \<Rightarrow> item \<Rightarrow> bool) \<Rightarrow> doc \<Rightarrow> doc \<Rightarrow> bool" where
  "grows R d d' =
     (wf_doc d' \<and> page d \<le> page d' \<and> length (pages d) \<le> length (pages d')
      \<and> (\<forall>i<length (pages d). \<exists>new. pages d' ! i = pages d ! i @ new \<and> (\<forall>it\<in>set new. R i it))
      \<and> (\<forall>i. length (pages d) \<le> i \<and> i < length (pages d') \<longrightarrow> (\<forall>it\<in>set (pages d' ! i). R i it)))"

definition safe :: "(nat \<Rightarrow> item \<Rightarrow> bool) \<Rightarrow> nat \<Rightarrow> (doc \<Rightarrow> doc) \<Rightarrow> bool" where
  "safe R k f = (\<forall>d. wf_doc d \<and> k \<le> page d \<longrightarrow> grows R d (f d))"





subsection \<open>Example inputs\<close>






section \<open>Properties\<close>

subsection \<open>Evaluation rules\<close>







subsection \<open>The currency formatter\<close>








subsection \<open>The sanitizer\<close>

lemmas clean_eval =
  clean_def replace_rupee_def replace_single_quotes_def replace_double_quotes_def
  replace_nbsp_def collapse_spaces_def strip_non_printable_def trim_def is_space_def
  printable_def js_def spec_example_def

text \<open>What holds of every result: printable ASCII only, and no space at either end.\<close>

lemma set_trim: "set (trim s) \<subseteq> set s"
proof -
  have "set (dropWhile is_space (rev (dropWhile is_space s))) \<subseteq> set (rev (dropWhile is_space s))"
    by (meson set_dropWhileD subsetI)
  moreover have "set (dropWhile is_space s) \<subseteq> set s"
    by (meson set_dropWhileD subsetI)
  ultimately show ?thesis
    by (auto simp: trim_def)
qed

lemma clean_printable: "c \<in> set (clean v) \<Longrightarrow> printable c"
proof -
  assume "c \<in> set (clean v)"
  then obtain s where "c \<in> set (trim (strip_non_printable s))"
    by (auto simp: clean_def Let_def)
  then have "c \<in> set (strip_non_printable s)"
    using set_trim by blast
  then show "printable c"
    by (simp add: strip_non_printable_def)
qed

lemma last_dropWhile: "dropWhile P xs \<noteq> [] \<Longrightarrow> last (dropWhile P xs) = last xs"
  by (metis last_appendR takeWhile_dropWhile_id)

lemma trim_ends:
  assumes "trim s \<noteq> []"
  shows "\<not> is_space (hd (trim s)) \<and> \<not> is_space (last (trim s))"
proof -
  define u where "u = dropWhile is_space s"
  define w where "w = dropWhile is_space (rev u)"
  have t: "trim s = rev w"
    by (simp add: trim_def u_def w_def)
  with assms have w: "w \<noteq> []"
    by simp
  then have u: "u \<noteq> []"
    by (auto simp: w_def)
  have "\<not> is_space (hd w)"
    using w unfolding w_def by (rule hd_dropWhile)
  moreover have "last w = last (rev u)"
    using w unfolding w_def by (rule last_dropWhile)
  moreover have "\<not> is_space (hd u)"
    using u unfolding u_def by (rule hd_dropWhile)
  ultimately show ?thesis
    using w u by (simp add: t last_rev hd_rev)
qed

lemma clean_trimmed:
  "clean v \<noteq> [] \<Longrightarrow> \<not> is_space (hd (clean v)) \<and> \<not> is_space (last (clean v))"
  unfolding clean_def Let_def by (rule trim_ends)

text \<open>
  Claim C6 at the input of the specification's own example. The rupee sign becomes
  \<^verbatim>\<open>Rs\<close>, the curly quotes become straight, and the result is printable and trimmed; but
  the en dash is removed after the white space was collapsed, so the space before it and
  the space after it meet: the result has two neighbouring spaces.
\<close>

theorem clean_spec_example_double_space:
  "clean (Some spec_example) = js ''Rs 1,000'' @ [32, 32, 34] @ js ''demo'' @ [34]
   \<and> double_space (clean (Some spec_example))"
  by (simp add: clean_eval)

subsection \<open>The inner loop of the chart renderers\<close>

lemma for_loop_stop:
  "\<not> js_le (Fin (real i)) steps \<Longrightarrow> for_loop body steps i out = Some out"
  by (subst for_loop.simps) simp

lemma for_loop_Some_not_PosInf:
  assumes "for_loop body st i out = Some y"
  shows "st \<noteq> PosInf"
proof (rule for_loop.raw_induct [where P = "\<lambda>_ s _ _ _. s \<noteq> PosInf", OF _ assms])
  fix lp :: "(nat \<Rightarrow> cmd list) \<Rightarrow> jsnum \<Rightarrow> nat \<Rightarrow> cmd list \<Rightarrow> cmd list option"
    and b s k acc r
  assume ih: "\<And>b s k acc r. lp b s k acc = Some r \<Longrightarrow> s \<noteq> PosInf"
    and run: "(if js_le (Fin (real k)) s then lp b s (Suc k) (acc @ b k) else Some acc) = Some r"
  show "s \<noteq> PosInf"
  proof
    assume "s = PosInf"
    with run have "lp b s (Suc k) (acc @ b k) = Some r"
      by simp
    from ih [OF this] show False
      using \<open>s = PosInf\<close> by simp
  qed
qed

lemma for_loop_diverges: "for_loop body PosInf i out = None"
  using for_loop_Some_not_PosInf [of body PosInf i out]
  by (cases "for_loop body PosInf i out") auto




lemma those_map_Some: "those (map (\<lambda>x. Some (f x)) xs) = Some (map f xs)"
  by (induction xs) simp_all

subsection \<open>Slice geometry\<close>


lemma finite_nonneg_Fin: "finite_nonneg x \<Longrightarrow> x = Fin (fin_of x) \<and> 0 \<le> fin_of x"
  by (cases x) (simp_all add: finite_nonneg_def)

lemma nonneg_fin_values:
  "\<forall>it\<in>set data. finite_nonneg (it_value it) \<Longrightarrow> fin_values data"
  using finite_nonneg_Fin by (auto simp: list_all_iff)








lemma spec_geometry_length [simp]: "length (spec_geometry tot cur data) = length data"
  by (induction data arbitrary: cur) simp_all


lemma foldl_total_fin:
  "fin_values data \<Longrightarrow>
   foldl (\<lambda>sum item. js_add sum (it_value item)) (Fin a) data
     = Fin (a + sum_list (map (\<lambda>it. fin_of (it_value it)) data))"
proof (induction data arbitrary: a)
  case Nil
  then show ?case by simp
next
  case (Cons it data)
  from Cons.prems have v: "it_value it = Fin (fin_of (it_value it))" and rest: "fin_values data"
    by simp_all
  have "js_add (Fin a) (it_value it) = Fin (a + fin_of (it_value it))"
    by (subst v) simp
  then show ?case
    using Cons.IH [OF rest] by (simp add: add.assoc)
qed

lemma series_total_fin:
  "fin_values data \<Longrightarrow> series_total data = Fin (sum_list (map (\<lambda>it. fin_of (it_value it)) data))"
  using foldl_total_fin [of data 0] by (simp add: series_total_def)








lemma all_zero:
  fixes data :: "chart_item list"
  assumes "\<forall>it\<in>set data. finite_nonneg (it_value it)" "series_total data = Fin 0"
  shows "\<forall>it\<in>set data. it_value it = Fin 0"
proof -
  have fv: "fin_values data"
    using assms(1) by (rule nonneg_fin_values)
  have "sum_list (map (\<lambda>it. fin_of (it_value it)) data) = 0"
    using series_total_fin [OF fv] assms(2) by simp
  moreover have "\<forall>x\<in>set (map (\<lambda>it. fin_of (it_value it)) data). 0 \<le> x"
    using assms(1) finite_nonneg_Fin by auto
  ultimately have "\<forall>x\<in>set (map (\<lambda>it. fin_of (it_value it)) data). x = 0"
    by (simp only: sum_list_nonneg_eq_0_iff)
  then show ?thesis
    using assms(1) finite_nonneg_Fin by (metis (mono_tags, lifting) image_eqI list.set_map)
qed

lemma pie_steps_NaN: "pie_steps NaN = NaN"
  by (simp add: pie_steps_def)

lemma donut_steps_NaN: "donut_steps NaN = NaN"
  by (simp add: donut_steps_def)

lemma sliceAngle_zero_total: "it_value it = Fin 0 \<Longrightarrow> sliceAngle_of (Fin 0) it = NaN"
  by (simp add: sliceAngle_of_def)

lemma pie_slices_zero:
  assumes "\<forall>it\<in>set data. it_value it = Fin 0"
  shows "map sl_span (pie_slices cx cy r (Fin 0) cur data) = replicate (length data) NaN
       \<and> map sl_cmds (pie_slices cx cy r (Fin 0) cur data)
           = map (\<lambda>it. Some [SetFillColor (it_color it), Circle cx cy r]) data"
  using assms
  by (induction data arbitrary: cur)
     (simp_all add: Let_def sliceAngle_zero_total pie_steps_NaN for_loop_stop)

lemma donut_slices_zero:
  assumes "\<forall>it\<in>set data. it_value it = Fin 0"
  shows "map sl_span (donut_slices cx cy ro ri (Fin 0) cur data) = replicate (length data) NaN
       \<and> map sl_cmds (donut_slices cx cy ro ri (Fin 0) cur data) = map (\<lambda>it. Some []) data"
  using assms
  by (induction data arbitrary: cur)
     (simp_all add: Let_def sliceAngle_zero_total donut_steps_NaN for_loop_stop)

text \<open>
  Claim C9, as amended. For a series of non-negative values that sum to zero, the span
  computed for every slice is \<^verbatim>\<open>NaN\<close> (the quotient \<^verbatim>\<open>0 / 0\<close>), not zero. The loop that fans
  a slice into triangles then runs no turn, so no triangle is drawn: the donut renderer
  draws only its white inner circle, and the pie renderer draws one full disc per entry
  and its white centre circle.
\<close>

theorem zero_total_degenerate:
  assumes "\<forall>it\<in>set data. finite_nonneg (it_value it)" and "series_total data = Fin 0"
  shows "map sl_span (pie_trace cx cy r data) = replicate (length data) NaN
    \<and> map sl_span (donut_trace cx' cy' ro ri data) = replicate (length data) NaN
    \<and> drawModernDonutChart cx' cy' ro ri data = Some [SetFillColor (255, 255, 255), Circle cx' cy' ri]
    \<and> drawPieChart cx cy r data =
        Some (concat (map (\<lambda>it. [SetFillColor (it_color it), Circle cx cy r]) data)
              @ [SetFillColor (255, 255, 255), Circle cx cy (js_mul r (Fin (1 / 2)))])"
proof -
  have z: "\<forall>it\<in>set data. it_value it = Fin 0"
    using assms by (rule all_zero)
  have p: "map sl_span (pie_trace cx cy r data) = replicate (length data) NaN"
    and pc: "map sl_cmds (pie_trace cx cy r data)
           = map (\<lambda>it. Some [SetFillColor (it_color it), Circle cx cy r]) data"
    using pie_slices_zero [OF z] by (simp_all add: pie_trace_def assms(2))
  have d: "map sl_span (donut_trace cx' cy' ro ri data) = replicate (length data) NaN"
    and dc: "map sl_cmds (donut_trace cx' cy' ro ri data) = map (\<lambda>it. Some []) data"
    using donut_slices_zero [OF z] by (simp_all add: donut_trace_def assms(2))
  have "drawModernDonutChart cx' cy' ro ri data = Some [SetFillColor (255, 255, 255), Circle cx' cy' ri]"
    by (simp add: drawModernDonutChart_def dc those_map_Some)
  moreover have "drawPieChart cx cy r data =
        Some (concat (map (\<lambda>it. [SetFillColor (it_color it), Circle cx cy r]) data)
              @ [SetFillColor (255, 255, 255), Circle cx cy (js_mul r (Fin (1 / 2)))])"
    by (simp add: drawPieChart_def pc those_map_Some)
  ultimately show ?thesis
    using p d by simp
qed

lemma no_bids_total: "series_total no_bids = Fin 0"
  by (simp add: series_total_def no_bids_def)

theorem zero_total_degenerate_witness:
  "series_total no_bids = Fin 0
   \<and> map sl_span (pie_trace (Fin 50) (Fin 100) (Fin 22) no_bids) = [NaN, NaN]
   \<and> drawModernDonutChart (Fin 45) (Fin 100) (Fin 18) (Fin 10) no_bids
       = Some [SetFillColor (255, 255, 255), Circle (Fin 45) (Fin 100) (Fin 10)]"
proof -
  have "\<forall>it\<in>set no_bids. finite_nonneg (it_value it)"
    by (simp add: no_bids_def finite_nonneg_def)
  then show ?thesis
    using zero_total_degenerate [where data = no_bids
        and cx = "Fin 50" and cy = "Fin 100" and r = "Fin 22"
        and cx' = "Fin 45" and cy' = "Fin 100" and ro = "Fin 18" and ri = "Fin 10"]
      no_bids_total
    by (simp add: no_bids_def)
qed

text \<open>
  Against claim C9 as stated: with no bids (zero wins, zero losses) the spans are \<^verbatim>\<open>NaN\<close>,
  not zero-length, and the pie renderer still draws a full disc for each entry.
\<close>

theorem zero_total_span_not_zero:
  "series_total no_bids = Fin 0
   \<and> map sl_span (donut_trace (Fin 45) (Fin 100) (Fin 18) (Fin 10) no_bids) = [NaN, NaN]
   \<and> map sl_span (donut_trace (Fin 45) (Fin 100) (Fin 18) (Fin 10) no_bids) \<noteq> [Fin 0, Fin 0]
   \<and> drawPieChart (Fin 50) (Fin 100) (Fin 22) no_bids =
       Some [SetFillColor (16, 185, 129), Circle (Fin 50) (Fin 100) (Fin 22),
             SetFillColor (239, 68, 68), Circle (Fin 50) (Fin 100) (Fin 22),
             SetFillColor (255, 255, 255), Circle (Fin 50) (Fin 100) (Fin 11)]"
  by (simp add: series_total_def no_bids_def donut_trace_def pie_trace_def drawPieChart_def
      sliceAngle_of_def pie_steps_def donut_steps_def for_loop_stop Let_def)

subsection \<open>Bar lengths\<close>













subsection \<open>Documents that grow\<close>



lemma grows_weaken: "grows R d d' \<Longrightarrow> (\<And>i it. R i it \<Longrightarrow> R' i it) \<Longrightarrow> grows R' d d'"
  unfolding grows_def by (simp (no_asm_simp)) meson


lemma safe_mono_k: "safe R k f \<Longrightarrow> k \<le> k' \<Longrightarrow> safe R k' f"
  by (auto simp: safe_def)






subsection \<open>The primitive actions\<close>

lemma on_page_append:
  "1 \<le> n \<Longrightarrow> n \<le> length ps \<Longrightarrow>
   on_page n (\<lambda>p. p @ [it]) ps = ps[n - 1 := ps ! (n - 1) @ [it]]"
  by (simp add: on_page_def)

lemma put_grows:
  assumes "wf_doc d" "R (page d - 1) it"
  shows "grows R d (put it d)"
proof -
  have p: "pages (put it d) = (pages d)[page d - 1 := pages d ! (page d - 1) @ [it]]"
    "page (put it d) = page d"
    using assms(1) by (simp_all add: put_def wf_doc_def on_page_append)
  have "\<exists>new. (pages d)[page d - 1 := pages d ! (page d - 1) @ [it]] ! i = pages d ! i @ new
           \<and> (\<forall>x\<in>set new. R i x)" if "i < length (pages d)" for i
  proof (cases "i = page d - 1")
    case True
    then show ?thesis
      using that assms(2) by (intro exI [of _ "[it]"]) simp
  next
    case False
    then show ?thesis
      using that by (intro exI [of _ "[]"]) simp
  qed
  then show ?thesis
    using assms(1) unfolding grows_def p wf_doc_def by auto
qed

lemma put_safe: "(\<And>i. k \<le> i + 1 \<Longrightarrow> R i it) \<Longrightarrow> safe R k (put it)"
  by (auto simp: safe_def intro!: put_grows)

lemma doc_text_safe: "(\<And>i. k \<le> i + 1 \<Longrightarrow> R i (Txt s)) \<Longrightarrow> safe R k (doc_text s)"
  unfolding doc_text_def by (rule put_safe)





subsection \<open>The closures and tables of part_001\<close>







lemma addNewPage_p1_eq:
  "addNewPage_p1 e rd d =
     \<lparr>pages = pages d @ [[Header [js ''Government Tender Analysis'',
                                  formatDate e (Some (rp_report_generated_at rd))],
                          Footer [rp_sellerName rd, js (''Page '' @ digits (length (pages d) + 1)),
                                  js ''Confidential'']]],
      page = length (pages d) + 1, yPosition = 18\<rparr>"
  by (simp add: addNewPage_p1_def run_def addPage_def setY_def addPageHeader_p1_def
      addPageFooter_p1_def put_def on_page_def nth_append)












subsection \<open>The sections of part_001\<close>
















subsection \<open>The closures and tables of pdfGenerator.ts\<close>





lemma addNewPage_pg_eq:
  "addNewPage_pg e rd d =
     \<lparr>pages = pages d @ [[Header [js ''Government Tender Performance Analysis''],
                          Footer [js ''Generated: '' @ formatDate e (Some (rg_report_generated_at rd)),
                                  js (''Page '' @ digits (length (pages d) + 1)),
                                  rg_sellerName rd]]],
      page = length (pages d) + 1, yPosition = 20\<rparr>"
  by (simp add: addNewPage_pg_def run_def addPage_def setY_def addPageHeader_pg_def
      addPageFooter_pg_def put_def on_page_def nth_append)













subsection \<open>The sections of pdfGenerator.ts\<close>
















subsection \<open>Running a list of actions\<close>





















subsection \<open>The document of part_001 as a whole\<close>













subsection \<open>The document of pdfGenerator.ts as a whole\<close>












subsection \<open>The headline figures\<close>






subsection \<open>The page-break guard\<close>

text \<open>
  Claim C2. In both generators \<^verbatim>\<open>checkPageBreak(h)\<close> returns \<^verbatim>\<open>true\<close> exactly when the cursor
  plus \<open>h\<close> exceeds the bottom boundary (the page height less 12 and 5 in \<^verbatim>\<open>part_001\<close>,
  the page height less 25 in \<^verbatim>\<open>pdfGenerator.ts\<close>). Otherwise it returns \<^verbatim>\<open>false\<close> and leaves
  the document, its pages and the cursor, as they were. When it breaks, the pages so far
  are kept, one page is added and made the current one, it carries the header and the
  footer stamp with its own page number, and the cursor is back at the top offset (18
  and 20).
\<close>

theorem page_break_guard:
  "checkPageBreak_p1 e rd h d
     = (if yPosition d + h > pageHeight e - 12 - 5
        then (True,
              \<lparr>pages = pages d
                 @ [[Header [js ''Government Tender Analysis'',
                             formatDate e (Some (rp_report_generated_at rd))],
                     Footer [rp_sellerName rd, js (''Page '' @ digits (length (pages d) + 1)),
                             js ''Confidential'']]],
               page = length (pages d) + 1, yPosition = 18\<rparr>)
        else (False, d))
   \<and> checkPageBreak_pg e' rd' h' d'
     = (if yPosition d' + h' > pageHeight e' - 25
        then (True,
              \<lparr>pages = pages d'
                 @ [[Header [js ''Government Tender Performance Analysis''],
                     Footer [js ''Generated: '' @ formatDate e' (Some (rg_report_generated_at rd')),
                             js (''Page '' @ digits (length (pages d') + 1)),
                             rg_sellerName rd']]],
               page = length (pages d') + 1, yPosition = 20\<rparr>)
        else (False, d'))"
  by (simp add: checkPageBreak_p1_def addNewPage_p1_eq checkPageBreak_pg_def addNewPage_pg_eq)

subsection \<open>The section filter\<close>


subsection \<open>The first page\<close>



end
